theory Spec2Isabelle
  imports Complex_Main "HOL-Library.Multiset"
begin

section \<open>Data model (domain/model/audio.go, pkg/errors, pkg/progress)\<close>

text \<open>
  Go's \<open>int\<close> and \<open>time.Duration\<close> are modelled as unbounded \<open>int\<close> (durations and
  instants in nanoseconds); no claim below depends on 64-bit wrap-around.
  The three \<open>float64\<close> options (loudness target, true-peak limit, loudness range) are
  carried in tenths: the integer \<open>-160\<close> stands for \<open>-16.0\<close>. They are only ever
  printed with \<open>%.1f\<close>.
  Field names are global in a record, so the fields of \<open>ProcessingOptions\<close> that share
  a name with \<open>AudioMetadata\<close> carry the prefix \<open>o\<close>, and \<open>ProcessingResult.Duration\<close> is
  \<open>Elapsed\<close>.
\<close>

type_synonym duration = int
type_synonym Codec = string
type_synonym BitrateMode = string

definition CodecOpus :: Codec where "CodecOpus = ''opus''"
definition CodecAAC :: Codec where "CodecAAC = ''aac''"
definition CodecMP3 :: Codec where "CodecMP3 = ''mp3''"
definition BitrateModeVBR :: BitrateMode where "BitrateModeVBR = ''vbr''"
definition BitrateCBR :: BitrateMode where "BitrateCBR = ''cbr''"

definition Second :: duration where "Second = 1000000000"
definition Minute :: duration where "Minute = 60 * Second"

record AudioMetadata =
  Duration :: duration
  SampleRate :: int
  Channels :: int
  Bitrate :: int
  Codec :: string
  Format :: string
  Size :: int

record ProcessingOptions =
  oCodec :: Codec
  oBitrate :: int
  oBitrateMode :: BitrateMode
  oSampleRate :: int
  NormalizationEnabled :: bool
  LoudnessTarget :: int
  TruePeakLimit :: int
  LoudnessRange :: int
  HighpassEnabled :: bool
  HighpassFreq :: int
  LowpassEnabled :: bool
  LowpassFreq :: int
  Timeout :: duration
  Workers :: int
  MaxRetries :: int
  RetryDelay :: duration

definition DefaultProcessingOptions :: ProcessingOptions where
  "DefaultProcessingOptions =
     \<lparr> oCodec = CodecOpus, oBitrate = 128000, oBitrateMode = BitrateCBR, oSampleRate = 48000,
       NormalizationEnabled = True, LoudnessTarget = -230, TruePeakLimit = -10,
       LoudnessRange = 70, HighpassEnabled = False, HighpassFreq = 80,
       LowpassEnabled = False, LowpassFreq = 18000, Timeout = 5 * Minute, Workers = 4,
       MaxRetries = 3, RetryDelay = Second \<rparr>"

record ProcessingResult =
  InputPath :: string
  OutputPath :: string
  InputMeta :: AudioMetadata
  OutputMeta :: AudioMetadata
  Elapsed :: duration
  ProcessedAt :: int

text \<open>The zero value \<open>&model.AudioMetadata{}\<close>.\<close>

definition zero_AudioMetadata :: AudioMetadata where
  "zero_AudioMetadata =
     \<lparr> Duration = 0, SampleRate = 0, Channels = 0, Bitrate = 0, Codec = [], Format = [],
       Size = 0 \<rparr>"

text \<open>
  Errors. \<open>ValidationError.Value\<close> is an \<open>interface{}\<close> holding a string or an int.
  \<open>Wrapped\<close> is \<open>fmt.Errorf("...: %w", err)\<close>; \<open>Opaque\<close> is any error value of another
  package (os, exec, json) with no \<open>Unwrap\<close>; \<open>Canceled\<close> and \<open>DeadlineExceeded\<close> are
  the two values \<open>ctx.Err()\<close> can return.
\<close>

datatype ival = VStr string | VInt int

datatype error =
    ValidationError string ival string
  | ProcessingError string string "error option"
  | FFmpegError string "string list" int string "error option"
  | Wrapped string error
  | Canceled
  | DeadlineExceeded
  | Opaque string

text \<open>\<open>NewValidationError(field, value, message)\<close>, \<open>NewProcessingError(stage, message, cause)\<close>.\<close>

definition NewValidationError :: "string \<Rightarrow> ival \<Rightarrow> string \<Rightarrow> error" where
  "NewValidationError field v message = ValidationError field v message"

definition NewProcessingError :: "string \<Rightarrow> string \<Rightarrow> error option \<Rightarrow> error" where
  "NewProcessingError stage message cause = ProcessingError stage message cause"

text \<open>
  \<open>isValidationError(err, &valErr)\<close> is \<open>errors.As\<close> with a \<open>*ValidationError\<close> target:
  it walks the \<open>Unwrap\<close> chain. \<open>ProcessingError\<close> and \<open>FFmpegError\<close> unwrap to their
  \<open>Cause\<close> (the embedded \<open>MusicProcError.Unwrap\<close>), a \<open>ValidationError\<close> matches.
\<close>

fun isValidationError :: "error \<Rightarrow> bool" where
  "isValidationError (ValidationError f v m) = True"
| "isValidationError (ProcessingError s m None) = False"
| "isValidationError (ProcessingError s m (Some c)) = isValidationError c"
| "isValidationError (FFmpegError m a x s None) = False"
| "isValidationError (FFmpegError m a x s (Some c)) = isValidationError c"
| "isValidationError (Wrapped m e) = isValidationError e"
| "isValidationError Canceled = False"
| "isValidationError DeadlineExceeded = False"
| "isValidationError (Opaque m) = False"

text \<open>The kind of the error value itself (its dynamic type / \<open>Code\<close> field).\<close>

datatype kind = KValidation | KProcessing | KFFmpeg | KOther

fun kind_of :: "error \<Rightarrow> kind" where
  "kind_of (ValidationError f v m) = KValidation"
| "kind_of (ProcessingError s m c) = KProcessing"
| "kind_of (FFmpegError m a x s c) = KFFmpeg"
| "kind_of e = KOther"

section \<open>Formatting (fmt.Sprintf, strings.Join)\<close>

definition digit_char :: "nat \<Rightarrow> char" where
  "digit_char d = ''0123456789'' ! d"

function show_nat :: "nat \<Rightarrow> string" where
  "show_nat n = (if n < 10 then [digit_char n] else show_nat (n div 10) @ [digit_char (n mod 10)])"
  by pat_completeness auto
termination
  by (relation "measure id") auto

declare show_nat.simps [simp del]

text \<open>\<open>%d\<close> of an int.\<close>

definition show_int :: "int \<Rightarrow> string" where
  "show_int i = (if i < 0 then CHR ''-'' # show_nat (nat (- i)) else show_nat (nat i))"

text \<open>\<open>%.1f\<close> of a value carried in tenths: sign, integer part, point, one digit.\<close>

definition show_tenths :: "int \<Rightarrow> string" where
  "show_tenths t =
     (if t < 0 then ''-'' else []) @ show_nat (nat \<bar>t\<bar> div 10) @ ''.'' @ show_nat (nat \<bar>t\<bar> mod 10)"

text \<open>\<open>strings.Join(elems, sep)\<close>.\<close>

fun Join :: "string list \<Rightarrow> string \<Rightarrow> string" where
  "Join [] sep = []"
| "Join [x] sep = x"
| "Join (x # y # ys) sep = x @ sep @ Join (y # ys) sep"

text \<open>Go's integer division truncates toward zero (HOL's \<open>div\<close> rounds down).\<close>

definition go_div :: "int \<Rightarrow> int \<Rightarrow> int" where
  "go_div a b = sgn a * sgn b * (\<bar>a\<bar> div \<bar>b\<bar>)"

section \<open>FilterChainBuilder (infrastructure/ffmpeg/executor.go)\<close>

text \<open>The builder is its \<open>filters\<close> slice; every \<open>Add\<close> appends and returns the builder.\<close>

type_synonym FilterChainBuilder = "string list"

definition NewFilterChainBuilder :: FilterChainBuilder where
  "NewFilterChainBuilder = []"

definition AddHighpass :: "int \<Rightarrow> FilterChainBuilder \<Rightarrow> FilterChainBuilder" where
  "AddHighpass freq b = b @ [''highpass=f='' @ show_int freq]"

definition AddLowpass :: "int \<Rightarrow> FilterChainBuilder \<Rightarrow> FilterChainBuilder" where
  "AddLowpass freq b = b @ [''lowpass=f='' @ show_int freq]"

definition AddLoudnorm :: "int \<Rightarrow> int \<Rightarrow> int \<Rightarrow> FilterChainBuilder \<Rightarrow> FilterChainBuilder" where
  "AddLoudnorm targetLUFS truePeak LRA b =
     b @ [''loudnorm=I='' @ show_tenths targetLUFS @ '':TP='' @ show_tenths truePeak
            @ '':LRA='' @ show_tenths LRA]"

definition Build :: "FilterChainBuilder \<Rightarrow> string" where
  "Build b = Join b '',''"

text \<open>The filter part of \<open>Pipeline.runFFmpeg\<close> (lines 147-159): the string \<open>filterStr\<close>.\<close>

definition filterStr :: "ProcessingOptions \<Rightarrow> string" where
  "filterStr opts =
     (let fb = NewFilterChainBuilder;
          fb = (if HighpassEnabled opts then AddHighpass (HighpassFreq opts) fb else fb);
          fb = (if LowpassEnabled opts then AddLowpass (LowpassFreq opts) fb else fb);
          fb = (if NormalizationEnabled opts
                then AddLoudnorm (LoudnessTarget opts) (TruePeakLimit opts) (LoudnessRange opts) fb
                else fb)
      in Build fb)"

section \<open>buildCodecArgs (application/pipeline)\<close>

definition bitrate_token :: "ProcessingOptions \<Rightarrow> string" where
  "bitrate_token opts = show_int (go_div (oBitrate opts) 1000) @ ''k''"

definition buildCodecArgs :: "ProcessingOptions \<Rightarrow> error + string list" where
  "buildCodecArgs opts =
     (let bitrate = bitrate_token opts in
      if oCodec opts = CodecOpus then
        (let args = [''-c:a'', ''libopus''] in
         if oBitrateMode opts = BitrateModeVBR
         then Inr (args @ [''-vbr'', ''on'', ''-b:a'', bitrate])
         else Inr (args @ [''-vbr'', ''off'', ''-b:a'', bitrate]))
      else if oCodec opts = CodecAAC then
        (let args = [''-c:a'', ''aac''] in
         if oBitrateMode opts = BitrateModeVBR
         then Inr (args @ [''-q:a'', ''2''])
         else Inr (args @ [''-b:a'', bitrate]))
      else if oCodec opts = CodecMP3 then
        (let args = [''-c:a'', ''libmp3lame''] in
         if oBitrateMode opts = BitrateModeVBR
         then Inr (args @ [''-q:a'', ''2''])
         else Inr (args @ [''-b:a'', bitrate]))
      else Inl (Opaque (''unsupported codec: '' @ oCodec opts)))"

section \<open>The environment: clock, context, collaborators\<close>

text \<open>
  \<open>progress.Update\<close> as \<open>Job.report\<close> fills it (the timestamp is left at its zero value);
  the percentages 5, 20, 90, 100 are whole numbers.
\<close>

definition StageProbe :: string where "StageProbe = ''probe''"
definition StageEncode :: string where "StageEncode = ''encode''"
definition StageDone :: string where "StageDone = ''done''"

record Update =
  uJobID :: string
  uStage :: string
  uPercent :: int
  uMessage :: string

text \<open>
  What the program does to the outside is recorded in order: the calls it makes on the
  storage provider, on the executor and on the reporter, the warning it logs, and every
  backoff wait that ran to its end. \<open>EvAttempt\<close> is a ghost event: \<open>retry.Do\<close> is about to
  call \<open>fn\<close>.
\<close>

datatype event =
    EvExists string
  | EvProbe string
  | EvExecute "string list"
  | EvReport Update
  | EvWarn string
  | EvAttempt
  | EvSleep duration

record world =
  now :: int
  trace :: "event list"

text \<open>
  A \<open>context.Context\<close> is the instant from which \<open>Done()\<close> is closed, with the error
  \<open>Err()\<close> returns from then on; \<open>None\<close> is a context that is never cancelled.
\<close>

type_synonym context_t = "(int \<times> error) option"

definition ctx_Err :: "context_t \<Rightarrow> world \<Rightarrow> error option" where
  "ctx_Err ctx w =
     (case ctx of None \<Rightarrow> None
      | Some (t, e) \<Rightarrow> if t \<le> now w then Some e else None)"

definition WithTimeout :: "context_t \<Rightarrow> duration \<Rightarrow> world \<Rightarrow> context_t" where
  "WithTimeout parent d w =
     (case parent of
        None \<Rightarrow> Some (now w + d, DeadlineExceeded)
      | Some (t, e) \<Rightarrow> if t \<le> now w + d then Some (t, e) else Some (now w + d, DeadlineExceeded))"

text \<open>
  The collaborators (\<open>ports.StorageProvider\<close>, \<open>ports.FFmpegExecutor\<close>) answer from the
  context, their arguments and the world at the call, and take some time. The library
  functions \<open>json.Unmarshal\<close> and \<open>fmt.Sscanf\<close> of \<open>probeFile\<close> are parameters too:
  \<open>scan_int\<close> is \<open>Sscanf(s, "%d", &n)\<close> (\<open>None\<close>: nothing stored), \<open>scan_seconds\<close> is
  \<open>Sscanf(s, "%f", &sec)\<close> followed by \<open>time.Duration(sec * float64(time.Second))\<close>.
  \<open>pick_done\<close> is the runtime's choice in a \<open>select\<close> whose two cases are ready at the
  same instant.
\<close>

record ffprobeStream =
  CodecName :: string
  sSampleRate :: string
  sChannels :: int
  sBitRate :: string

record ffprobeOutput =
  fDuration :: string
  fBitRate :: string
  fSize :: string
  FormatName :: string
  Streams :: "ffprobeStream list"

record env =
  Exists :: "context_t \<Rightarrow> string \<Rightarrow> world \<Rightarrow> (error + bool) \<times> nat"
  Probe :: "context_t \<Rightarrow> string \<Rightarrow> world \<Rightarrow> (error + string) \<times> nat"
  Execute :: "context_t \<Rightarrow> string list \<Rightarrow> world \<Rightarrow> error option \<times> nat"
  Unmarshal :: "string \<Rightarrow> error + ffprobeOutput"
  scan_int :: "string \<Rightarrow> int option"
  scan_seconds :: "string \<Rightarrow> duration option"
  pick_done :: "world \<Rightarrow> bool"

definition emit :: "event \<Rightarrow> nat \<Rightarrow> world \<Rightarrow> world" where
  "emit ev d w = w\<lparr> now := now w + int d, trace := trace w @ [ev] \<rparr>"

definition call_Exists :: "env \<Rightarrow> context_t \<Rightarrow> string \<Rightarrow> world \<Rightarrow> (error + bool) \<times> world" where
  "call_Exists env ctx path w =
     (case Exists env ctx path w of (r, d) \<Rightarrow> (r, emit (EvExists path) d w))"

definition call_Probe :: "env \<Rightarrow> context_t \<Rightarrow> string \<Rightarrow> world \<Rightarrow> (error + string) \<times> world" where
  "call_Probe env ctx path w =
     (case Probe env ctx path w of (r, d) \<Rightarrow> (r, emit (EvProbe path) d w))"

definition call_Execute :: "env \<Rightarrow> context_t \<Rightarrow> string list \<Rightarrow> world \<Rightarrow> error option \<times> world" where
  "call_Execute env ctx args w =
     (case Execute env ctx args w of (r, d) \<Rightarrow> (r, emit (EvExecute args) d w))"

section \<open>Pipeline (application/pipeline)\<close>

text \<open>
  \<open>Job.Options\<close> is a pointer that both callers (\<open>ProcessAudio\<close>, \<open>processJob\<close>) set to a
  non-nil value; \<open>jReporter\<close> says whether \<open>Job.Reporter\<close> is non-nil.
\<close>

record Job =
  jID :: string
  jInputPath :: string
  jOutputPath :: string
  jOptions :: ProcessingOptions
  jReporter :: bool

definition report :: "Job \<Rightarrow> string \<Rightarrow> int \<Rightarrow> string \<Rightarrow> world \<Rightarrow> world" where
  "report j stage percent msg w =
     (if \<not> jReporter j then w
      else emit (EvReport \<lparr> uJobID = jID j, uStage = stage, uPercent = percent, uMessage = msg \<rparr>) 0 w)"

definition validateInput :: "env \<Rightarrow> context_t \<Rightarrow> Job \<Rightarrow> world \<Rightarrow> error option \<times> world" where
  "validateInput env ctx job w =
     (if jInputPath job = [] then
        (Some (NewValidationError ''inputPath'' (VStr []) ''input path must not be empty''), w)
      else if jOutputPath job = [] then
        (Some (NewValidationError ''outputPath'' (VStr []) ''output path must not be empty''), w)
      else
        (case call_Exists env ctx (jInputPath job) w of
           (Inl err, w1) \<Rightarrow>
             (Some (NewProcessingError ''validate'' ''failed to check input file'' (Some err)), w1)
         | (Inr exists, w1) \<Rightarrow>
             if \<not> exists then
               (Some (NewValidationError ''inputPath'' (VStr (jInputPath job))
                        ''input file does not exist''), w1)
             else
               (let opts = jOptions job in
                if oBitrate opts \<le> 0 then
                  (Some (NewValidationError ''bitrate'' (VInt (oBitrate opts))
                           ''bitrate must be positive''), w1)
                else if oSampleRate opts \<le> 0 then
                  (Some (NewValidationError ''sampleRate'' (VInt (oSampleRate opts))
                           ''sample rate must be positive''), w1)
                else (None, w1))))"

definition parse_probe :: "env \<Rightarrow> ffprobeOutput \<Rightarrow> AudioMetadata" where
  "parse_probe env probe =
     (let meta = zero_AudioMetadata\<lparr> Format := FormatName probe \<rparr>;
          meta = (case scan_seconds env (fDuration probe) of
                    Some d \<Rightarrow> meta\<lparr> Duration := d \<rparr> | None \<Rightarrow> meta);
          meta = (case scan_int env (fSize probe) of
                    Some n \<Rightarrow> meta\<lparr> Size := n \<rparr> | None \<Rightarrow> meta)
      in case Streams probe of
           [] \<Rightarrow> meta
         | s # rest \<Rightarrow>
             (let meta = meta\<lparr> Codec := CodecName s, Channels := sChannels s \<rparr>;
                  meta = (case scan_int env (sSampleRate s) of
                            Some n \<Rightarrow> meta\<lparr> SampleRate := n \<rparr> | None \<Rightarrow> meta);
                  meta = (case scan_int env (sBitRate s) of
                            Some n \<Rightarrow> meta\<lparr> Bitrate := n \<rparr> | None \<Rightarrow> meta)
              in meta))"

definition probeFile :: "env \<Rightarrow> context_t \<Rightarrow> string \<Rightarrow> world \<Rightarrow> (error + AudioMetadata) \<times> world" where
  "probeFile env ctx path w =
     (case call_Probe env ctx path w of
        (Inl err, w1) \<Rightarrow> (Inl err, w1)
      | (Inr data, w1) \<Rightarrow>
          (case Unmarshal env data of
             Inl err \<Rightarrow> (Inl (Wrapped ''failed to parse ffprobe output'' err), w1)
           | Inr probe \<Rightarrow> (Inr (parse_probe env probe), w1)))"

text \<open>The argument list \<open>runFFmpeg\<close> hands to the executor (lines 143-175), or the error.\<close>

definition ffmpeg_args :: "Job \<Rightarrow> error + string list" where
  "ffmpeg_args job =
     (let opts = jOptions job;
          args = [''-y'', ''-i'', jInputPath job];
          fs = filterStr opts;
          args = (if fs \<noteq> [] then args @ [''-af'', fs] else args);
          args = args @ [''-ar'', show_int (oSampleRate opts)]
      in case buildCodecArgs opts of
           Inl err \<Rightarrow> Inl (NewProcessingError ''encode'' ''failed to build codec args'' (Some err))
         | Inr codecArgs \<Rightarrow> Inr (args @ codecArgs @ [jOutputPath job]))"

definition runFFmpeg :: "env \<Rightarrow> context_t \<Rightarrow> Job \<Rightarrow> world \<Rightarrow> error option \<times> world" where
  "runFFmpeg env ctx job w =
     (case ffmpeg_args job of
        Inl err \<Rightarrow> (Some err, w)
      | Inr args \<Rightarrow>
          call_Execute env ctx args (report job StageEncode 20 ''encoding started'' w))"

text \<open>The output probe of \<open>Pipeline.Run\<close> (lines 96-101) with its fallback.\<close>

definition probe_output :: "env \<Rightarrow> context_t \<Rightarrow> Job \<Rightarrow> world \<Rightarrow> AudioMetadata \<times> world" where
  "probe_output env ctx job w =
     (case probeFile env ctx (jOutputPath job) w of
        (Inl err, w1) \<Rightarrow> (zero_AudioMetadata, emit (EvWarn ''failed to probe output file'') 0 w1)
      | (Inr outputMeta, w1) \<Rightarrow> (outputMeta, w1))"

definition Run :: "env \<Rightarrow> context_t \<Rightarrow> Job \<Rightarrow> world \<Rightarrow> (error + ProcessingResult) \<times> world" where
  "Run env ctx job w =
     (let start = now w in
      case validateInput env ctx job w of
        (Some err, w1) \<Rightarrow> (Inl err, w1)
      | (None, w1) \<Rightarrow>
          (case probeFile env ctx (jInputPath job) w1 of
             (Inl err, w2) \<Rightarrow>
               (Inl (NewProcessingError ''probe'' ''failed to probe input file'' (Some err)), w2)
           | (Inr inputMeta, w2) \<Rightarrow>
               (case runFFmpeg env ctx job (report job StageProbe 5 ''input probed'' w2) of
                  (Some err, w3) \<Rightarrow> (Inl err, w3)
                | (None, w3) \<Rightarrow>
                    (case probe_output env ctx job
                            (report job StageEncode 90 ''encoding complete'' w3) of
                       (outputMeta, w4) \<Rightarrow>
                         (let w5 = report job StageDone 100 ''done'' w4 in
                          (Inr \<lparr> InputPath = jInputPath job, OutputPath = jOutputPath job,
                                 InputMeta = inputMeta, OutputMeta = outputMeta,
                                 Elapsed = now w5 - start, ProcessedAt = now w5 \<rparr>, w5))))))"

section \<open>Retry policy (pkg/retry/retry.go)\<close>

text \<open>
  \<open>Multiplier\<close> is a \<open>float64\<close>; the model multiplies exactly and truncates toward zero, as
  the conversion \<open>time.Duration(float64(delay) * cfg.Multiplier)\<close> does. This is what the
  code computes whenever the product is exact in \<open>float64\<close>, which is so for the multiplier
  2.0 that every caller in the repository uses and delays below \<open>2^52\<close> ns.
\<close>

record Config =
  MaxAttempts :: int
  Delay :: duration
  Multiplier :: real
  MaxDelay :: duration

definition DefaultConfig :: Config where
  "DefaultConfig = \<lparr> MaxAttempts = 3, Delay = Second, Multiplier = 2, MaxDelay = 30 * Second \<rparr>"

definition trunc :: "real \<Rightarrow> int" where
  "trunc x = (if 0 \<le> x then \<lfloor>x\<rfloor> else \<lceil>x\<rceil>)"

text \<open>Lines 52-55: the delay of the next round.\<close>

definition next_delay :: "Config \<Rightarrow> duration \<Rightarrow> duration" where
  "next_delay cfg delay =
     (let d = trunc (of_int delay * Multiplier cfg)
      in if d > MaxDelay cfg then MaxDelay cfg else d)"

text \<open>
  Lines 46-50, the \<open>select\<close> between \<open>ctx.Done()\<close> and \<open>time.After(delay)\<close>: the timer
  fires at \<open>now + delay\<close> (at once when the delay is not positive), the context is ready
  from its instant on; the earlier one wins, and \<open>pick_done\<close> decides a tie. The result is
  \<open>Some (ctx.Err())\<close> when the context won; \<open>slept\<close> is the world after a wait that ran
  to its end.
\<close>

definition slept :: "duration \<Rightarrow> world \<Rightarrow> world" where
  "slept delay w = w\<lparr> now := now w + max 0 delay, trace := trace w @ [EvSleep delay] \<rparr>"

definition backoff :: "env \<Rightarrow> context_t \<Rightarrow> duration \<Rightarrow> world \<Rightarrow> error option \<times> world" where
  "backoff env ctx delay w =
     (let fire = now w + max 0 delay
      in case ctx of
           None \<Rightarrow> (None, slept delay w)
         | Some (t, e) \<Rightarrow>
             (let ready = max t (now w) in
              if ready < fire \<or> (ready = fire \<and> pick_done env w)
              then (Some e, w\<lparr> now := ready \<rparr>)
              else (None, slept delay w)))"

text \<open>
  \<open>fn\<close> is a closure: it works on the variables it captured (\<open>'s\<close>) and on the world.
  \<open>Do_loop\<close> is the \<open>for\<close> loop of \<open>Do\<close> from the head of iteration \<open>attempt\<close>, with the
  current \<open>delay\<close> and \<open>lastErr\<close>.
\<close>

type_synonym 's work = "'s \<times> world \<Rightarrow> error option \<times> ('s \<times> world)"

definition attempt_mark :: "'s \<times> world \<Rightarrow> 's \<times> world" where
  "attempt_mark st = (fst st, emit EvAttempt 0 (snd st))"

function Do_loop ::
  "env \<Rightarrow> context_t \<Rightarrow> Config \<Rightarrow> 's work \<Rightarrow> int \<Rightarrow> duration \<Rightarrow> error option \<Rightarrow> 's \<times> world
     \<Rightarrow> error option \<times> ('s \<times> world)" where
  "Do_loop env ctx cfg fn attempt delay lastErr st =
     (if attempt < MaxAttempts cfg then
        (case ctx_Err ctx (snd st) of
           Some err \<Rightarrow> (Some err, st)
         | None \<Rightarrow>
             (case fn (attempt_mark st) of
                (None, st1) \<Rightarrow> (None, st1)
              | (Some e, st1) \<Rightarrow>
                  if attempt = MaxAttempts cfg - 1 then (Some e, st1)
                  else
                    (case backoff env ctx delay (snd st1) of
                       (Some cerr, w2) \<Rightarrow> (Some cerr, (fst st1, w2))
                     | (None, w2) \<Rightarrow>
                         Do_loop env ctx cfg fn (attempt + 1) (next_delay cfg delay) (Some e)
                           (fst st1, w2))))
      else (lastErr, st))"
  by pat_completeness auto
termination
  by (relation "measure (\<lambda>(env, ctx, cfg, fn, attempt, delay, lastErr, st). nat (MaxAttempts cfg - attempt))")
     auto

declare Do_loop.simps [simp del]

definition Do :: "env \<Rightarrow> context_t \<Rightarrow> Config \<Rightarrow> 's work \<Rightarrow> 's \<times> world \<Rightarrow> error option \<times> ('s \<times> world)" where
  "Do env ctx cfg fn st = Do_loop env ctx cfg fn 0 (Delay cfg) None st"

section \<open>AudioService.ProcessAudio (application/usecase)\<close>

definition alnum :: "char \<Rightarrow> bool" where
  "alnum c =
     (let n = (of_char c :: nat)
      in (97 \<le> n \<and> n \<le> 122) \<or> (65 \<le> n \<and> n \<le> 90) \<or> (48 \<le> n \<and> n \<le> 57))"

definition sanitize :: "string \<Rightarrow> string" where
  "sanitize s =
     (let s = (if length s > 20 then drop (length s - 20) s else s)
      in map (\<lambda>c. if alnum c then c else CHR ''_'') s)"

definition generateJobID :: "string \<Rightarrow> world \<Rightarrow> string" where
  "generateJobID input w = ''job-'' @ show_int (now w) @ ''-'' @ sanitize input"

text \<open>
  The closure handed to \<open>retry.Do\<close> (lines 123-134). Its captured variable is \<open>result\<close>,
  a \<open>*model.ProcessingResult\<close>: \<open>None\<close> is the nil pointer.
\<close>

definition attempt_fn :: "env \<Rightarrow> context_t \<Rightarrow> Job \<Rightarrow> (ProcessingResult option) work" where
  "attempt_fn env ctx job st =
     (case Run env ctx job (snd st) of
        (Inl runErr, w1) \<Rightarrow>
          if isValidationError runErr then (None, (None, w1))
          else (Some runErr, (None, w1))
      | (Inr r, w1) \<Rightarrow> (None, (Some r, w1)))"

text \<open>
  What a call of \<open>ProcessAudio\<close> does: it returns a pair of a result pointer and an error,
  or it panics. Line 146 reads \<open>result.Duration\<close>; on a nil \<open>result\<close> that is a nil
  pointer dereference.
\<close>

datatype returned = Return "ProcessingResult option" "error option" | PanicNilDeref

definition ProcessAudio ::
  "env \<Rightarrow> context_t \<Rightarrow> string \<Rightarrow> string \<Rightarrow> (ProcessingOptions \<Rightarrow> ProcessingOptions) list \<Rightarrow> world
     \<Rightarrow> returned \<times> world" where
  "ProcessAudio env ctx inputPath outputPath opts w =
     (let options = foldl (\<lambda>options o'. o' options) DefaultProcessingOptions opts;
          ctx = (if Timeout options > 0 then WithTimeout ctx (Timeout options) w else ctx);
          job = \<lparr> jID = generateJobID inputPath w, jInputPath = inputPath,
                  jOutputPath = outputPath, jOptions = options, jReporter = True \<rparr>
      in case Do env ctx
                \<lparr> MaxAttempts = MaxRetries options, Delay = RetryDelay options,
                  Multiplier = 2, MaxDelay = 30 * Second \<rparr>
                (attempt_fn env ctx job) (None, w) of
           (Some err, (result, w1)) \<Rightarrow> (Return None (Some err), w1)
         | (None, (None, w1)) \<Rightarrow> (PanicNilDeref, w1)
         | (None, (Some r, w1)) \<Rightarrow> (Return (Some r) None, w1))"

section \<open>Worker pool (application/pipeline/worker_pool.go)\<close>

record BatchJob =
  bID :: string
  bInputPath :: string
  bOutputPath :: string
  bOptions :: "ProcessingOptions option"

record BatchResult =
  JobID :: string
  Result :: "ProcessingResult option"
  Err :: "error option"

definition NewWorkerPool :: "int \<Rightarrow> int" where
  "NewWorkerPool workers = (if workers \<le> 0 then 4 else workers)"

text \<open>\<open>processJob\<close>; \<open>reporter\<close> says whether the reporter handed to \<open>Run\<close> is non-nil.\<close>

definition processJob ::
  "env \<Rightarrow> context_t \<Rightarrow> bool \<Rightarrow> BatchJob \<Rightarrow> world \<Rightarrow> (error + ProcessingResult) \<times> world" where
  "processJob env ctx reporter job w =
     (let opts = (case bOptions job of None \<Rightarrow> DefaultProcessingOptions | Some opts \<Rightarrow> opts);
          pipelineJob = \<lparr> jID = bID job, jInputPath = bInputPath job,
                          jOutputPath = bOutputPath job, jOptions = opts, jReporter = reporter \<rparr>
      in case Run env ctx pipelineJob w of
           (Inl err, w1) \<Rightarrow> (Inl (Wrapped (''job '' @ bID job @ '' failed'') err), w1)
         | (Inr result, w1) \<Rightarrow> (Inr result, w1))"

definition batch_result :: "BatchJob \<Rightarrow> error + ProcessingResult \<Rightarrow> BatchResult" where
  "batch_result j r =
     (case r of
        Inl err \<Rightarrow> \<lparr> JobID = bID j, Result = None, Err = Some err \<rparr>
      | Inr result \<Rightarrow> \<lparr> JobID = bID j, Result = Some result, Err = None \<rparr>)"

text \<open>
  \<open>WorkerPool.Run\<close> starts a dispatcher goroutine and one goroutine per admitted job; the
  model is the interleaving of their steps. A state holds what is left in \<open>jobCh\<close>, the
  worker goroutines that have not finished with where each one stands, every value
  sent on \<open>results\<close> so far (in order), whether \<open>results\<close> is closed, and the world.

  A worker goroutine is \<open>Started\<close> (spawned, \<open>processJob\<close> not yet called), then \<open>Sent\<close>
  (its result is on the channel; the deferred calls are pending), then \<open>Released\<close> (it
  has taken its token back out of \<open>semaphore\<close>; \<open>wg.Done()\<close> is pending), then gone. The
  deferred calls run last-registered first: the semaphore receive, then \<open>wg.Done()\<close>.
\<close>

datatype phase = Started | Sent | Released

record pool =
  jobCh :: "BatchJob list"
  goroutines :: "(BatchJob \<times> phase) list"
  results :: "BatchResult list"
  closed :: bool
  pworld :: world

text \<open>Tokens in \<open>semaphore\<close>: the goroutines that have not yet run their deferred receive.\<close>

definition held :: "pool \<Rightarrow> nat" where
  "held s = length (filter (\<lambda>g. snd g \<noteq> Released) (goroutines s))"

text \<open>
  The steps, for a pool of \<open>workers\<close> workers under the context \<open>ctx\<close>:
  \<^item> \<open>tick\<close>: time passes;
  \<^item> \<open>skip\<close>: the dispatcher's \<open>select\<close> takes \<open>case <-ctx.Done()\<close> (lines 52-57), which is
    ready once the context is done;
  \<^item> \<open>admit\<close>: the \<open>select\<close> takes \<open>case semaphore <- struct{}{}\<close> (lines 58-72), which is
    ready while the semaphore has room, and the goroutine is spawned. Go chooses among
    the ready cases of a \<open>select\<close> at random, so when both are ready both steps exist;
  \<^item> \<open>work\<close>: a goroutine runs \<open>processJob\<close> and sends its result (lines 66-71); \<open>results\<close>
    has room for one value per job, so the send does not block;
  \<^item> \<open>release\<close>, \<open>finish\<close>: its deferred calls (lines 63-64);
  \<^item> \<open>close\<close>: the loop is over, \<open>wg.Wait()\<close> has returned, and the deferred
    \<open>close(results)\<close> runs (lines 39, 75).
\<close>

inductive step :: "env \<Rightarrow> context_t \<Rightarrow> int \<Rightarrow> bool \<Rightarrow> pool \<Rightarrow> pool \<Rightarrow> bool"
  for env :: env and ctx :: context_t and workers :: int and reporter :: bool where
  tick: "step env ctx workers reporter s (s\<lparr> pworld := (pworld s)\<lparr> now := now (pworld s) + int d \<rparr> \<rparr>)"
| skip: "jobCh s = j # js \<Longrightarrow> ctx_Err ctx (pworld s) = Some e \<Longrightarrow>
         step env ctx workers reporter s
           (s\<lparr> jobCh := js,
               results := results s @ [\<lparr> JobID = bID j, Result = None, Err = Some e \<rparr>] \<rparr>)"
| admit: "jobCh s = j # js \<Longrightarrow> int (held s) < workers \<Longrightarrow>
          step env ctx workers reporter s
            (s\<lparr> jobCh := js, goroutines := goroutines s @ [(j, Started)] \<rparr>)"
| work: "goroutines s = gs1 @ (j, Started) # gs2 \<Longrightarrow>
         processJob env ctx reporter j (pworld s) = (r, w') \<Longrightarrow>
         step env ctx workers reporter s
           (s\<lparr> goroutines := gs1 @ (j, Sent) # gs2,
               results := results s @ [batch_result j r], pworld := w' \<rparr>)"
| release: "goroutines s = gs1 @ (j, Sent) # gs2 \<Longrightarrow>
            step env ctx workers reporter s (s\<lparr> goroutines := gs1 @ (j, Released) # gs2 \<rparr>)"
| finish: "goroutines s = gs1 @ (j, Released) # gs2 \<Longrightarrow>
           step env ctx workers reporter s (s\<lparr> goroutines := gs1 @ gs2 \<rparr>)"
| close: "jobCh s = [] \<Longrightarrow> goroutines s = [] \<Longrightarrow> \<not> closed s \<Longrightarrow>
          step env ctx workers reporter s (s\<lparr> closed := True \<rparr>)"

text \<open>The state right after \<open>WorkerPool.Run\<close> has returned the channel.\<close>

definition WorkerPool_Run :: "BatchJob list \<Rightarrow> world \<Rightarrow> pool" where
  "WorkerPool_Run jobs w =
     \<lparr> jobCh = jobs, goroutines = [], results = [], closed = False, pworld = w \<rparr>"

text \<open>\<open>AudioService.ProcessBatch\<close>: for no jobs, a channel that is closed already.\<close>

definition ProcessBatch :: "BatchJob list \<Rightarrow> world \<Rightarrow> pool" where
  "ProcessBatch jobs w =
     (if length jobs = 0
      then \<lparr> jobCh = [], goroutines = [], results = [], closed = True, pworld = w \<rparr>
      else WorkerPool_Run jobs w)"

text \<open>The states a batch call can be in.\<close>

definition reachable :: "env \<Rightarrow> context_t \<Rightarrow> int \<Rightarrow> bool \<Rightarrow> BatchJob list \<Rightarrow> world \<Rightarrow> pool \<Rightarrow> bool" where
  "reachable env ctx workers reporter jobs w s =
     (step env ctx workers reporter)\<^sup>*\<^sup>* (ProcessBatch jobs w) s"

text \<open>
  What is still to be done in a state: every job weighs 4 in \<open>jobCh\<close>, 3, 2, 1 as its
  goroutine advances, and closing the channel is the last step.
\<close>

fun phase_weight :: "phase \<Rightarrow> nat" where
  "phase_weight Started = 3"
| "phase_weight Sent = 2"
| "phase_weight Released = 1"

definition remaining :: "pool \<Rightarrow> nat" where
  "remaining s =
     4 * length (jobCh s) + sum_list (map (\<lambda>g. phase_weight (snd g)) (goroutines s))
       + (if closed s then 0 else 1)"

text \<open>A step of the program itself (not of the clock).\<close>

definition progress :: "env \<Rightarrow> context_t \<Rightarrow> int \<Rightarrow> bool \<Rightarrow> pool \<Rightarrow> pool \<Rightarrow> bool" where
  "progress env ctx workers reporter s s' =
     (step env ctx workers reporter s s' \<and> remaining s' < remaining s)"

text \<open>
  The bookkeeping of a batch: every submitted job ID is, with its multiplicity, either
  still in \<open>jobCh\<close>, or with a goroutine that has not sent yet, or on \<open>results\<close>; and
  \<open>results\<close> is closed only when nothing is left, or from the start when there are no jobs.
\<close>

definition started_ids :: "pool \<Rightarrow> string list" where
  "started_ids s = map (\<lambda>g. bID (fst g)) (filter (\<lambda>g. snd g = Started) (goroutines s))"

definition accounted :: "BatchJob list \<Rightarrow> pool \<Rightarrow> bool" where
  "accounted jobs s =
     (mset (map JobID (results s)) + mset (map bID (jobCh s)) + mset (started_ids s)
        = mset (map bID jobs)
      \<and> (if closed s then jobCh s = [] \<and> goroutines s = [] else jobs \<noteq> []))"

section \<open>Observations on traces\<close>

fun attempts_of :: "event list \<Rightarrow> nat" where
  "attempts_of [] = 0"
| "attempts_of (EvAttempt # evs) = Suc (attempts_of evs)"
| "attempts_of (ev # evs) = attempts_of evs"

fun sleeps_of :: "event list \<Rightarrow> duration list" where
  "sleeps_of [] = []"
| "sleeps_of (EvSleep d # evs) = d # sleeps_of evs"
| "sleeps_of (ev # evs) = sleeps_of evs"

fun executor_calls :: "event list \<Rightarrow> nat" where
  "executor_calls [] = 0"
| "executor_calls (EvProbe path # evs) = Suc (executor_calls evs)"
| "executor_calls (EvExecute args # evs) = Suc (executor_calls evs)"
| "executor_calls (ev # evs) = executor_calls evs"

text \<open>The token that follows \<open>-b:a\<close> in an argument list.\<close>

fun bitrate_arg :: "string list \<Rightarrow> string option" where
  "bitrate_arg (a # b # rest) = (if a = ''-b:a'' then Some b else bitrate_arg (b # rest))"
| "bitrate_arg rest = None"

section \<open>Test doubles (mocks)\<close>

text \<open>
  \<open>MockFFmpegExecutor\<close> and \<open>MockStorageProvider\<close> with no function set: \<open>Exists\<close> answers
  true, \<open>Probe\<close> answers \<open>defaultProbeResponse()\<close>, \<open>Execute\<close> succeeds; no call takes time.
  The JSON text is kept abstract as the string \<open>defaultProbeResponse\<close>, which \<open>Unmarshal\<close>
  decodes to the fields the mock marshals.
\<close>

definition defaultProbeResponse :: string where
  "defaultProbeResponse = ''defaultProbeResponse''"

definition default_probe :: ffprobeOutput where
  "default_probe =
     \<lparr> fDuration = ''120.5'', fBitRate = ''192000'', fSize = ''2880000'', FormatName = ''wav'',
       Streams = [\<lparr> CodecName = ''pcm_s16le'', sSampleRate = ''44100'', sChannels = 2,
                    sBitRate = ''1411200'' \<rparr>] \<rparr>"

definition mock_env :: env where
  "mock_env =
     \<lparr> Exists = (\<lambda>ctx path w. (Inr True, 0)),
       Probe = (\<lambda>ctx path w. (Inr defaultProbeResponse, 0)),
       Execute = (\<lambda>ctx args w. (None, 0)),
       Unmarshal = (\<lambda>data. if data = defaultProbeResponse then Inr default_probe
                            else Inl (Opaque ''invalid character'')),
       scan_int = map_of [(''2880000'', 2880000), (''44100'', 44100), (''1411200'', 1411200)],
       scan_seconds = map_of [(''120.5'', 120500000000)],
       pick_done = (\<lambda>w. False) \<rparr>"

definition world0 :: world where
  "world0 = \<lparr> now = 0, trace = [] \<rparr>"

text \<open>A unit of work that counts its calls and fails with \<open>err\<close> on the first \<open>k\<close> of them.\<close>

definition flaky :: "nat \<Rightarrow> error \<Rightarrow> nat work" where
  "flaky k err st = (if fst st < k then Some err else None, (Suc (fst st), snd st))"

definition job_ok :: Job where
  "job_ok = \<lparr> jID = ''job-1'', jInputPath = ''in.wav'', jOutputPath = ''out.opus'',
              jOptions = DefaultProcessingOptions, jReporter = True \<rparr>"

definition probe_fails_on :: "string \<Rightarrow> env" where
  "probe_fails_on p =
     mock_env\<lparr> Probe := (\<lambda>ctx path w. if path = p then (Inl (Opaque ''no such file''), 1)
                                     else (Inr defaultProbeResponse, 0)) \<rparr>"

text \<open>
  A batch job with no options of its own, a context that is cancelled from instant 0 on,
  and the state in which a one-job batch ends when its job was admitted and ran with
  outcome \<open>out\<close>.
\<close>

definition job_a :: BatchJob where
  "job_a = \<lparr> bID = ''a'', bInputPath = ''a.wav'', bOutputPath = ''a.opus'', bOptions = None \<rparr>"

definition cancelled :: context_t where
  "cancelled = Some (0, Canceled)"

definition served :: "BatchJob \<Rightarrow> (error + ProcessingResult) \<times> world \<Rightarrow> pool" where
  "served j out =
     \<lparr> jobCh = [], goroutines = [], results = [batch_result j (fst out)], closed = True,
       pworld = snd out \<rparr>"

section \<open>Helper lemmas\<close>

lemma show_int_0: "show_int 0 = ''0''"
  by (simp add: show_int_def show_nat.simps digit_char_def)

lemma go_div_pos: "0 < a \<Longrightarrow> 0 < b \<Longrightarrow> go_div a b = a div b"
  by (simp add: go_div_def)

lemma pair_fstI: "fst p = a \<Longrightarrow> p = (a, snd p)"
  by (cases p) simp

lemmas filter_defs =
  filterStr_def NewFilterChainBuilder_def AddHighpass_def AddLowpass_def AddLoudnorm_def
  Build_def show_int_def show_tenths_def show_nat.simps digit_char_def

lemmas mock_defs =
  mock_env_def world0_def job_ok_def DefaultProcessingOptions_def defaultProbeResponse_def
  default_probe_def

lemmas pipeline_defs =
  validateInput_def probeFile_def runFFmpeg_def probe_output_def ffmpeg_args_def
  call_Exists_def call_Probe_def call_Execute_def report_def emit_def
  NewValidationError_def NewProcessingError_def

lemma attempts_of_append: "attempts_of (xs @ ys) = attempts_of xs + attempts_of ys"
  by (induction xs rule: attempts_of.induct) simp_all

lemma sleeps_of_append: "sleeps_of (xs @ ys) = sleeps_of xs @ sleeps_of ys"
  by (induction xs rule: sleeps_of.induct) simp_all

text \<open>The pipeline adds neither an attempt nor a sleep to the trace.\<close>

lemma quiet_emit:
  "ev \<noteq> EvAttempt \<Longrightarrow> (\<forall>d. ev \<noteq> EvSleep d) \<Longrightarrow>
     attempts_of (trace (emit ev n w)) = attempts_of (trace w)
     \<and> sleeps_of (trace (emit ev n w)) = sleeps_of (trace w)"
  by (cases ev) (simp_all add: emit_def attempts_of_append sleeps_of_append)

lemma quiet_report:
  "attempts_of (trace (report j st p m w)) = attempts_of (trace w)
   \<and> sleeps_of (trace (report j st p m w)) = sleeps_of (trace w)"
  by (simp add: report_def quiet_emit)

lemma quiet_validateInput:
  "attempts_of (trace (snd (validateInput env ctx job w))) = attempts_of (trace w)
   \<and> sleeps_of (trace (snd (validateInput env ctx job w))) = sleeps_of (trace w)"
  by (simp add: validateInput_def call_Exists_def quiet_emit Let_def
        split: prod.split sum.split)

lemma quiet_probeFile:
  "attempts_of (trace (snd (probeFile env ctx path w))) = attempts_of (trace w)
   \<and> sleeps_of (trace (snd (probeFile env ctx path w))) = sleeps_of (trace w)"
  by (simp add: probeFile_def call_Probe_def quiet_emit split: prod.split sum.split)

lemma quiet_runFFmpeg:
  "attempts_of (trace (snd (runFFmpeg env ctx job w))) = attempts_of (trace w)
   \<and> sleeps_of (trace (snd (runFFmpeg env ctx job w))) = sleeps_of (trace w)"
  by (simp add: runFFmpeg_def call_Execute_def quiet_emit quiet_report
        split: prod.split sum.split)

lemma quiet_probe_output:
  "attempts_of (trace (snd (probe_output env ctx job w))) = attempts_of (trace w)
   \<and> sleeps_of (trace (snd (probe_output env ctx job w))) = sleeps_of (trace w)"
proof (cases "probeFile env ctx (jOutputPath job) w")
  case (Pair r w1)
  with quiet_probeFile [of env ctx "jOutputPath job" w] show ?thesis
    by (cases r) (simp_all add: probe_output_def quiet_emit)
qed

lemma quiet_Run:
  "attempts_of (trace (snd (Run env ctx job w))) = attempts_of (trace w)
   \<and> sleeps_of (trace (snd (Run env ctx job w))) = sleeps_of (trace w)"
proof -
  obtain v w1 where v: "validateInput env ctx job w = (v, w1)" by force
  obtain p w2 where p: "probeFile env ctx (jInputPath job) w1 = (p, w2)" by force
  obtain f w3 where f: "runFFmpeg env ctx job (report job StageProbe 5 ''input probed'' w2) = (f, w3)"
    by force
  obtain m w4 where m: "probe_output env ctx job (report job StageEncode 90 ''encoding complete'' w3) = (m, w4)"
    by force
  have q1: "attempts_of (trace w1) = attempts_of (trace w) \<and> sleeps_of (trace w1) = sleeps_of (trace w)"
    using quiet_validateInput [of env ctx job w] v by simp
  have q2: "attempts_of (trace w2) = attempts_of (trace w) \<and> sleeps_of (trace w2) = sleeps_of (trace w)"
    using quiet_probeFile [of env ctx "jInputPath job" w1] p q1 by simp
  have q3: "attempts_of (trace w3) = attempts_of (trace w) \<and> sleeps_of (trace w3) = sleeps_of (trace w)"
    using quiet_runFFmpeg [of env ctx job "report job StageProbe 5 ''input probed'' w2"] f q2
    by (simp add: quiet_report)
  have q4: "attempts_of (trace w4) = attempts_of (trace w) \<and> sleeps_of (trace w4) = sleeps_of (trace w)"
    using quiet_probe_output [of env ctx job "report job StageEncode 90 ''encoding complete'' w3"] m q3
    by (simp add: quiet_report)
  show ?thesis
    using v p f m q1 q2 q3 q4
    by (simp add: Run_def Let_def quiet_report split: option.split sum.split)
qed

lemma Do_zero: "MaxAttempts cfg \<le> 0 \<Longrightarrow> Do env ctx cfg fn st = (None, st)"
  by (simp add: Do_def Do_loop.simps)

lemma Do_first:
  "0 < MaxAttempts cfg \<Longrightarrow> ctx_Err ctx (snd st) = None \<Longrightarrow> fn (attempt_mark st) = (None, st1)
     \<Longrightarrow> Do env ctx cfg fn st = (None, st1)"
  by (simp add: Do_def Do_loop.simps [of env ctx cfg fn 0])

lemma trunc_double: "trunc (of_int u * 2) = 2 * u"
proof -
  have "(of_int u * 2 :: real) = of_int (2 * u)" by simp
  then show ?thesis unfolding trunc_def by (simp only: floor_of_int ceiling_of_int if_cancel)
qed

lemma backoff_None:
  "fst (backoff env ctx delay w) = None \<Longrightarrow> backoff env ctx delay w = (None, slept delay w)"
  by (auto simp: backoff_def Let_def split: option.splits prod.splits if_splits)

lemma Do_loop_fail:
  assumes "attempt < MaxAttempts cfg - 1"
      and "ctx_Err ctx (snd st) = None"
      and "fn (attempt_mark st) = (Some e, (s1, w1))"
      and "fst (backoff env ctx delay w1) = None"
  shows "Do_loop env ctx cfg fn attempt delay lastErr st
           = Do_loop env ctx cfg fn (attempt + 1) (next_delay cfg delay) (Some e)
               (s1, slept delay w1)"
  using assms(1,2,3) backoff_None [OF assms(4)]
  by (subst Do_loop.simps) simp

lemma Do_loop_success:
  assumes "attempt < MaxAttempts cfg"
      and "ctx_Err ctx (snd st) = None"
      and "fn (attempt_mark st) = (None, st1)"
  shows "Do_loop env ctx cfg fn attempt delay lastErr st = (None, st1)"
  using assms
  by (subst Do_loop.simps) simp

text \<open>
  What \<open>Do\<close> does in the scenario of three attempts with multiplier 2.0, under any
  context that is not done at the head of an attempt and does not cut a wait short:
  \<open>fn\<close> fails, \<open>Do\<close> waits the configured delay \<open>u\<close>, \<open>fn\<close> fails again, \<open>Do\<close> waits
  \<open>min (2 * u) m\<close>, \<open>fn\<close> succeeds and \<open>Do\<close> returns nil with the state that call left.
\<close>

lemma Do_backoff_schedule:
  assumes "\<bar>u\<bar> < 2 ^ 52"
      and "ctx_Err ctx (snd st) = None"
      and "fn (attempt_mark st) = (Some e1, (s1, w1))"
      and "fst (backoff env ctx u w1) = None"
      and "ctx_Err ctx (slept u w1) = None"
      and "fn (attempt_mark (s1, slept u w1)) = (Some e2, (s2, w2))"
      and "fst (backoff env ctx (min (2 * u) m) w2) = None"
      and "ctx_Err ctx (slept (min (2 * u) m) w2) = None"
      and "fn (attempt_mark (s2, slept (min (2 * u) m) w2)) = (None, st3)"
  shows "Do env ctx \<lparr> MaxAttempts = 3, Delay = u, Multiplier = 2, MaxDelay = m \<rparr> fn st
           = (None, st3)"
proof -
  let ?cfg = "\<lparr> MaxAttempts = 3, Delay = u, Multiplier = 2, MaxDelay = m \<rparr>"
  have nd: "next_delay ?cfg u = min (2 * u) m"
    by (simp add: next_delay_def trunc_double Let_def min_def)
  have "Do env ctx ?cfg fn st
          = Do_loop env ctx ?cfg fn 1 (min (2 * u) m) (Some e1) (s1, slept u w1)"
    using Do_loop_fail [of 0 ?cfg ctx st fn e1 s1 w1 env u None] assms(2,3,4) nd
    by (simp add: Do_def)
  also have "\<dots> = Do_loop env ctx ?cfg fn 2 (next_delay ?cfg (min (2 * u) m)) (Some e2)
                      (s2, slept (min (2 * u) m) w2)"
    using Do_loop_fail [of 1 ?cfg ctx "(s1, slept u w1)" fn e2 s2 w2 env "min (2 * u) m" "Some e1"]
          assms(5,6,7)
    by simp
  also have "\<dots> = (None, st3)"
    using assms(8,9) by (intro Do_loop_success) simp_all
  finally show ?thesis .
qed

lemmas retry_eval =
  Do_def Do_loop.simps ctx_Err_def backoff_def slept_def next_delay_def trunc_def flaky_def
  attempt_mark_def emit_def world0_def Let_def

text \<open>
  The scenario under the deadline context that \<open>ProcessAudio\<close> passes by default (five
  minutes), with the default cap of 30 seconds: waits of one, then two seconds.
\<close>

lemma Do_backoff_schedule_default:
  "Do mock_env (WithTimeout None (5 * Minute) world0)
      \<lparr> MaxAttempts = 3, Delay = Second, Multiplier = 2, MaxDelay = 30 * Second \<rparr>
      (flaky 2 (Opaque ''boom'')) (0, world0)
     = (None, (3, \<lparr> now = 3 * Second,
                     trace = [EvAttempt, EvSleep Second, EvAttempt, EvSleep (2 * Second),
                              EvAttempt] \<rparr>))"
proof -
  let ?ctx = "WithTimeout None (5 * Minute) world0"
  let ?w1 = "emit EvAttempt 0 world0"
  let ?w2 = "emit EvAttempt 0 (slept Second ?w1)"
  let ?d2 = "min (2 * Second) (30 * Second)"
  have u: "\<bar>Second\<bar> < 2 ^ 52" by (simp add: Second_def)
  have c0: "ctx_Err ?ctx (snd (0 :: nat, world0)) = None"
    by (simp add: ctx_Err_def WithTimeout_def world0_def Minute_def Second_def)
  have a1: "flaky 2 (Opaque ''boom'') (attempt_mark (0, world0)) = (Some (Opaque ''boom''), (1, ?w1))"
    by (simp add: flaky_def attempt_mark_def)
  have b1: "fst (backoff mock_env ?ctx Second ?w1) = None"
    by (simp add: backoff_def WithTimeout_def world0_def emit_def Minute_def Second_def Let_def)
  have c1: "ctx_Err ?ctx (slept Second ?w1) = None"
    by (simp add: ctx_Err_def WithTimeout_def world0_def emit_def slept_def Minute_def Second_def)
  have a2: "flaky 2 (Opaque ''boom'') (attempt_mark (1, slept Second ?w1))
              = (Some (Opaque ''boom''), (2, ?w2))"
    by (simp add: flaky_def attempt_mark_def)
  have b2: "fst (backoff mock_env ?ctx ?d2 ?w2) = None"
    by (simp add: backoff_def WithTimeout_def world0_def emit_def slept_def Minute_def Second_def
          Let_def)
  have c2: "ctx_Err ?ctx (slept ?d2 ?w2) = None"
    by (simp add: ctx_Err_def WithTimeout_def world0_def emit_def slept_def Minute_def Second_def)
  have a3: "flaky 2 (Opaque ''boom'') (attempt_mark (2, slept ?d2 ?w2))
              = (None, (3, emit EvAttempt 0 (slept ?d2 ?w2)))"
    by (simp add: flaky_def attempt_mark_def)
  show ?thesis
    using Do_backoff_schedule [OF u c0 a1 b1 c1 a2 b2 c2 a3]
    by (simp add: emit_def slept_def world0_def Second_def)
qed

lemma ProcessAudio_validation_panics:
  assumes "options = foldl (\<lambda>options o'. o' options) DefaultProcessingOptions opts"
      and "ctx' = (if Timeout options > 0 then WithTimeout ctx (Timeout options) w else ctx)"
      and "job = \<lparr> jID = generateJobID inputPath w, jInputPath = inputPath,
                    jOutputPath = outputPath, jOptions = options, jReporter = True \<rparr>"
      and "1 \<le> MaxRetries options"
      and "ctx_Err ctx' w = None"
      and "Run env ctx' job (emit EvAttempt 0 w) = (Inl e, w1)"
      and "isValidationError e"
  shows "ProcessAudio env ctx inputPath outputPath opts w = (PanicNilDeref, w1)"
proof -
  let ?cfg = "\<lparr> MaxAttempts = MaxRetries options, Delay = RetryDelay options,
                 Multiplier = 2, MaxDelay = 30 * Second \<rparr>"
  have "attempt_fn env ctx' job (attempt_mark (None, w)) = (None, (None, w1))"
    using assms(6,7) by (simp add: attempt_fn_def attempt_mark_def)
  then have "Do env ctx' ?cfg (attempt_fn env ctx' job) (None, w) = (None, (None, w1))"
    using assms(4,5) by (intro Do_first) simp_all
  moreover have "ProcessAudio env ctx inputPath outputPath opts w
      = (case Do env ctx' ?cfg (attempt_fn env ctx' job) (None, w) of
           (Some err, (result, w1)) \<Rightarrow> (Return None (Some err), w1)
         | (None, (None, w1)) \<Rightarrow> (PanicNilDeref, w1)
         | (None, (Some r, w1)) \<Rightarrow> (Return (Some r) None, w1))"
    by (simp only: ProcessAudio_def Let_def assms(1) [symmetric] assms(2) [symmetric]
          assms(3) [symmetric])
  ultimately show ?thesis by simp
qed

lemma NewWorkerPool_pos: "0 < NewWorkerPool n"
  by (simp add: NewWorkerPool_def)

lemma JobID_batch_result: "JobID (batch_result j r) = bID j"
  by (cases r) (simp_all add: batch_result_def)

lemma accounted_init: "accounted jobs (ProcessBatch jobs w)"
  by (simp add: accounted_def ProcessBatch_def WorkerPool_Run_def started_ids_def)

lemma accounted_step:
  assumes "step env ctx workers reporter s s'" and "accounted jobs s"
  shows "accounted jobs s'"
  using assms
proof (induction rule: step.induct)
  case (tick s d)
  then show ?case by (simp add: accounted_def started_ids_def)
next
  case (skip s j js e)
  then show ?case by (auto simp: accounted_def started_ids_def split: if_splits)
next
  case (admit s j js)
  then show ?case by (auto simp: accounted_def started_ids_def split: if_splits)
next
  case (work s gs1 j gs2 r w')
  then show ?case
    by (auto simp: accounted_def started_ids_def JobID_batch_result split: if_splits)
next
  case (release s gs1 j gs2)
  then show ?case by (auto simp: accounted_def started_ids_def split: if_splits)
next
  case (finish s gs1 j gs2)
  then show ?case by (auto simp: accounted_def started_ids_def split: if_splits)
next
  case (close s)
  then show ?case by (auto simp: accounted_def started_ids_def split: if_splits)
qed

lemma accounted_reachable:
  assumes "reachable env ctx workers reporter jobs w s"
  shows "accounted jobs s"
  using assms unfolding reachable_def
  by (induction rule: rtranclp_induct) (auto intro: accounted_init accounted_step)

lemma progress_exists:
  assumes "0 < workers" and "\<not> closed s"
  shows "\<exists>s'. progress env ctx workers reporter s s'"
proof (cases "goroutines s")
  case Nil
  show ?thesis
  proof (cases "jobCh s")
    case Nil': Nil
    have "step env ctx workers reporter s (s\<lparr> closed := True \<rparr>)"
      using Nil' Nil assms(2) by (rule step.close)
    then show ?thesis
      using assms(2) by (auto simp: progress_def remaining_def)
  next
    case (Cons j js)
    have "step env ctx workers reporter s
            (s\<lparr> jobCh := js, goroutines := goroutines s @ [(j, Started)] \<rparr>)"
      using Cons Nil assms(1) by (intro step.admit) (simp_all add: held_def)
    then show ?thesis
      using Cons Nil by (auto simp: progress_def remaining_def)
  qed
next
  case (Cons g gs)
  obtain j ph where g: "g = (j, ph)" by (cases g)
  show ?thesis
  proof (cases ph)
    case Started
    obtain r w' where r: "processJob env ctx reporter j (pworld s) = (r, w')" by force
    have "goroutines s = [] @ (j, Started) # gs" using Cons g Started by simp
    from step.work [OF this r, of workers]
    show ?thesis using Cons g Started by (auto simp: progress_def remaining_def)
  next
    case Sent
    have "goroutines s = [] @ (j, Sent) # gs" using Cons g Sent by simp
    from step.release [OF this, of env ctx workers reporter]
    show ?thesis using Cons g Sent by (auto simp: progress_def remaining_def)
  next
    case Released
    have "goroutines s = [] @ (j, Released) # gs" using Cons g Released by simp
    from step.finish [OF this, of env ctx workers reporter]
    show ?thesis using Cons g Released by (auto simp: progress_def remaining_def)
  qed
qed

lemma closed_final:
  assumes "step env ctx workers reporter s s'" and "closed s"
      and "jobCh s = []" and "goroutines s = []"
  shows "results s' = results s \<and> closed s'"
  using assms by (induction rule: step.induct) simp_all

lemma run_single:
  assumes "0 < workers"
  shows "(step env ctx workers reporter)\<^sup>*\<^sup>* (WorkerPool_Run [j] w)
           (served j (processJob env ctx reporter j w))"
proof -
  obtain r w' where out: "processJob env ctx reporter j w = (r, w')" by force
  let ?s0 = "WorkerPool_Run [j] w"
  let ?s1 = "\<lparr> jobCh = [], goroutines = [(j, Started)], results = [], closed = False, pworld = w \<rparr>"
  let ?s2 = "\<lparr> jobCh = [], goroutines = [(j, Sent)], results = [batch_result j r],
               closed = False, pworld = w' \<rparr>"
  let ?s3 = "\<lparr> jobCh = [], goroutines = [(j, Released)], results = [batch_result j r],
               closed = False, pworld = w' \<rparr>"
  let ?s4 = "\<lparr> jobCh = [], goroutines = [], results = [batch_result j r],
               closed = False, pworld = w' \<rparr>"
  let ?s5 = "\<lparr> jobCh = [], goroutines = [], results = [batch_result j r],
               closed = True, pworld = w' \<rparr>"
  have 1: "step env ctx workers reporter ?s0 ?s1"
    using step.admit [of ?s0 j "[]" workers env ctx reporter] assms
    by (simp add: WorkerPool_Run_def held_def)
  have 2: "step env ctx workers reporter ?s1 ?s2"
    using step.work [of ?s1 "[]" j "[]" env ctx reporter r w' workers] out by simp
  have 3: "step env ctx workers reporter ?s2 ?s3"
    using step.release [of ?s2 "[]" j "[]" env ctx workers reporter] by simp
  have 4: "step env ctx workers reporter ?s3 ?s4"
    using step.finish [of ?s3 "[]" j "[]" env ctx workers reporter] by simp
  have 5: "step env ctx workers reporter ?s4 ?s5"
    using step.close [of ?s4 env ctx workers reporter] by simp
  have "(step env ctx workers reporter)\<^sup>*\<^sup>* ?s0 ?s5"
    using 1 2 3 4 5 by (meson rtranclp.rtrancl_into_rtrancl rtranclp.rtrancl_refl)
  then show ?thesis by (simp add: served_def out)
qed

lemma reachable_single:
  "reachable env ctx (NewWorkerPool n) reporter [j] w (served j (processJob env ctx reporter j w))"
  using run_single [OF NewWorkerPool_pos] by (simp add: reachable_def ProcessBatch_def)

lemmas batch_eval =
  processJob_def Run_def pipeline_defs parse_probe_def mock_defs filter_defs buildCodecArgs_def
  bitrate_token_def go_div_def batch_result_def served_def job_a_def cancelled_def
  CodecOpus_def BitrateCBR_def BitrateModeVBR_def StageProbe_def StageEncode_def StageDone_def
  zero_AudioMetadata_def Let_def

section \<open>Pipeline: validation, filter chain, codec arguments, output probe\<close>

text \<open>
  C8. \<open>validateInput\<close> and the kinds of its errors. The storage check is made only when
  both paths are non-empty. When it is made and itself fails, the result is a
  processing-failure error. In every other case the result is a validation error exactly
  when the input path is empty, the output path is empty, the input does not exist, the
  bitrate is not positive or the sample rate is not positive; otherwise there is no error.
\<close>

theorem validateInput_kinds:
  "(jInputPath job \<noteq> [] \<and> jOutputPath job \<noteq> []
      \<and> fst (Exists env ctx (jInputPath job) w) = Inl err
    \<longrightarrow> (\<exists>e. fst (validateInput env ctx job w) = Some e \<and> kind_of e = KProcessing))
   \<and> (\<not> (jInputPath job \<noteq> [] \<and> jOutputPath job \<noteq> []
           \<and> (\<exists>err. fst (Exists env ctx (jInputPath job) w) = Inl err))
    \<longrightarrow> ((\<exists>e. fst (validateInput env ctx job w) = Some e \<and> kind_of e = KValidation)
           \<longleftrightarrow> (jInputPath job = [] \<or> jOutputPath job = []
                \<or> fst (Exists env ctx (jInputPath job) w) = Inr False
                \<or> oBitrate (jOptions job) \<le> 0 \<or> oSampleRate (jOptions job) \<le> 0))
        \<and> (fst (validateInput env ctx job w) = None
             \<or> (\<exists>e. fst (validateInput env ctx job w) = Some e \<and> kind_of e = KValidation)))"
  by (cases "Exists env ctx (jInputPath job) w"; cases "fst (Exists env ctx (jInputPath job) w)")
     (auto simp: validateInput_def call_Exists_def NewValidationError_def
        NewProcessingError_def Let_def)

theorem validateInput_kinds_witness:
  "(\<exists>e. fst (validateInput
              (mock_env\<lparr> Exists := (\<lambda>ctx path w. (Inl (Opaque ''permission denied''), 0)) \<rparr>)
              None job_ok world0) = Some e \<and> kind_of e = KProcessing)
   \<and> (\<exists>e. fst (validateInput mock_env None
                  (job_ok\<lparr> jOptions := DefaultProcessingOptions\<lparr> oBitrate := 0 \<rparr> \<rparr>) world0) = Some e
          \<and> kind_of e = KValidation)"
  using validateInput_kinds
          [of job_ok "mock_env\<lparr> Exists := (\<lambda>ctx path w. (Inl (Opaque ''permission denied''), 0)) \<rparr>"
              None world0 "Opaque ''permission denied''"]
        validateInput_kinds
          [of "job_ok\<lparr> jOptions := DefaultProcessingOptions\<lparr> oBitrate := 0 \<rparr> \<rparr>" mock_env None world0]
  by (simp add: mock_defs)

text \<open>
  C9. The filter chain of \<open>runFFmpeg\<close>: the enabled filters in the order highpass, lowpass,
  loudnorm, joined by commas, the disabled ones left out; and for highpass at 80 Hz,
  lowpass off, loudnorm at -16.0 / -1.0 / 7.0 the chain is
  \<open>highpass=f=80,loudnorm=I=-16.0:TP=-1.0:LRA=7.0\<close>.
\<close>

theorem filterStr_chain:
  "filterStr opts =
     Join ((if HighpassEnabled opts then [''highpass=f='' @ show_int (HighpassFreq opts)] else [])
           @ (if LowpassEnabled opts then [''lowpass=f='' @ show_int (LowpassFreq opts)] else [])
           @ (if NormalizationEnabled opts
              then [''loudnorm=I='' @ show_tenths (LoudnessTarget opts)
                    @ '':TP='' @ show_tenths (TruePeakLimit opts)
                    @ '':LRA='' @ show_tenths (LoudnessRange opts)]
              else [])) '',''
   \<and> (HighpassEnabled opts \<and> HighpassFreq opts = 80 \<and> \<not> LowpassEnabled opts
        \<and> NormalizationEnabled opts \<and> LoudnessTarget opts = -160
        \<and> TruePeakLimit opts = -10 \<and> LoudnessRange opts = 70
      \<longrightarrow> filterStr opts = ''highpass=f=80,loudnorm=I=-16.0:TP=-1.0:LRA=7.0'')"
  by (simp add: filter_defs Let_def)

theorem filterStr_chain_witness:
  "filterStr (DefaultProcessingOptions
                \<lparr> LoudnessTarget := -160, HighpassEnabled := True, HighpassFreq := 80 \<rparr>)
     = ''highpass=f=80,loudnorm=I=-16.0:TP=-1.0:LRA=7.0''"
  using filterStr_chain
          [of "DefaultProcessingOptions
                 \<lparr> LoudnessTarget := -160, HighpassEnabled := True, HighpassFreq := 80 \<rparr>",
           THEN conjunct2]
  by (simp add: DefaultProcessingOptions_def)

text \<open>
  C10. For a recognised codec and a positive bitrate, \<open>buildCodecArgs\<close> succeeds and the
  token after \<open>-b:a\<close> is the integer quotient of the bitrate by 1000 followed by \<open>k\<close>
  (AAC and MP3 in VBR mode emit no \<open>-b:a\<close> at all); such a bitrate passes
  \<open>validateInput\<close>; and from 1 to 999 the token is \<open>0k\<close>.
\<close>

theorem buildCodecArgs_bitrate:
  assumes "oCodec (jOptions job) = CodecOpus \<or> oCodec (jOptions job) = CodecAAC
             \<or> oCodec (jOptions job) = CodecMP3"
      and "0 < oBitrate (jOptions job)"
  shows "(\<exists>args. buildCodecArgs (jOptions job) = Inr args \<and>
            bitrate_arg args =
              (if oCodec (jOptions job) \<noteq> CodecOpus \<and> oBitrateMode (jOptions job) = BitrateModeVBR
               then None
               else Some (show_int (oBitrate (jOptions job) div 1000) @ ''k'')))
         \<and> (oBitrate (jOptions job) \<le> 999 \<longrightarrow> bitrate_token (jOptions job) = ''0k'')
         \<and> (jInputPath job \<noteq> [] \<and> jOutputPath job \<noteq> []
              \<and> fst (Exists env ctx (jInputPath job) w) = Inr True
              \<and> 0 < oSampleRate (jOptions job)
            \<longrightarrow> fst (validateInput env ctx job w) = None)"
proof -
  have "fst (validateInput env ctx job w) = None"
    if "jInputPath job \<noteq> []" "jOutputPath job \<noteq> []"
       "fst (Exists env ctx (jInputPath job) w) = Inr True" "0 < oSampleRate (jOptions job)"
    using that assms(2)
    by (cases "Exists env ctx (jInputPath job) w")
       (simp add: validateInput_def call_Exists_def Let_def)
  moreover have "\<exists>args. buildCodecArgs (jOptions job) = Inr args \<and>
            bitrate_arg args =
              (if oCodec (jOptions job) \<noteq> CodecOpus \<and> oBitrateMode (jOptions job) = BitrateModeVBR
               then None
               else Some (show_int (oBitrate (jOptions job) div 1000) @ ''k''))"
    using assms
    by (auto simp: buildCodecArgs_def bitrate_token_def go_div_pos Let_def
          CodecOpus_def CodecAAC_def CodecMP3_def)
  moreover have "bitrate_token (jOptions job) = ''0k''" if "oBitrate (jOptions job) \<le> 999"
    using that assms(2) by (simp add: bitrate_token_def go_div_pos show_int_0)
  ultimately show ?thesis by blast
qed

theorem buildCodecArgs_bitrate_witness:
  "buildCodecArgs (DefaultProcessingOptions\<lparr> oBitrate := 999 \<rparr>)
     = Inr [''-c:a'', ''libopus'', ''-vbr'', ''off'', ''-b:a'', ''0k'']
   \<and> bitrate_token (DefaultProcessingOptions\<lparr> oBitrate := 999 \<rparr>) = ''0k''
   \<and> fst (validateInput mock_env None
             (job_ok\<lparr> jOptions := DefaultProcessingOptions\<lparr> oBitrate := 999 \<rparr> \<rparr>) world0) = None"
  using buildCodecArgs_bitrate
          [of "job_ok\<lparr> jOptions := DefaultProcessingOptions\<lparr> oBitrate := 999 \<rparr> \<rparr>" mock_env None world0]
  by (simp add: mock_defs buildCodecArgs_def CodecOpus_def BitrateCBR_def BitrateModeVBR_def
        show_int_0)

text \<open>
  C5. When validation, the input probe and the transformation have succeeded and the
  probe of the output file fails, \<open>Run\<close> returns a result, not an error, and the
  result's output metadata is the zero value.
\<close>

theorem Run_output_probe_lenient:
  assumes "validateInput env ctx job w = (None, w1)"
      and "probeFile env ctx (jInputPath job) w1 = (Inr inputMeta, w2)"
      and "runFFmpeg env ctx job (report job StageProbe 5 ''input probed'' w2) = (None, w3)"
      and "probeFile env ctx (jOutputPath job)
             (report job StageEncode 90 ''encoding complete'' w3) = (Inl err, w4)"
  shows "\<exists>r w'. Run env ctx job w = (Inr r, w') \<and> OutputMeta r = zero_AudioMetadata
            \<and> InputMeta r = inputMeta \<and> InputPath r = jInputPath job
            \<and> OutputPath r = jOutputPath job"
  using assms by (simp add: Run_def probe_output_def Let_def)

theorem Run_output_probe_lenient_witness:
  "\<exists>r w'. Run (probe_fails_on ''out.opus'') None job_ok world0 = (Inr r, w')
      \<and> OutputMeta r = zero_AudioMetadata \<and> InputMeta r = parse_probe mock_env default_probe
      \<and> InputPath r = ''in.wav'' \<and> OutputPath r = ''out.opus''"
proof -
  let ?env = "probe_fails_on ''out.opus''"
  have h1: "validateInput ?env None job_ok world0 = (None, emit (EvExists ''in.wav'') 0 world0)"
    by (simp add: pipeline_defs mock_defs probe_fails_on_def)
  have h2: "probeFile ?env None (jInputPath job_ok) (emit (EvExists ''in.wav'') 0 world0)
              = (Inr (parse_probe mock_env default_probe),
                 emit (EvProbe ''in.wav'') 0 (emit (EvExists ''in.wav'') 0 world0))"
    by (simp add: pipeline_defs mock_defs probe_fails_on_def parse_probe_def)
  have h3: "fst (runFFmpeg ?env None job_ok
              (report job_ok StageProbe 5 ''input probed''
                 (emit (EvProbe ''in.wav'') 0 (emit (EvExists ''in.wav'') 0 world0)))) = None"
    by (simp add: pipeline_defs mock_defs probe_fails_on_def buildCodecArgs_def CodecOpus_def
          BitrateCBR_def BitrateModeVBR_def Let_def
          split: sum.split)
  have h4: "fst (probeFile ?env None (jOutputPath job_ok) w) = Inl (Opaque ''no such file'')" for w
    by (simp add: pipeline_defs mock_defs probe_fails_on_def)
  show ?thesis
    using Run_output_probe_lenient [OF h1 h2 pair_fstI [OF h3] pair_fstI [OF h4]]
    by (simp add: job_ok_def)
qed


section \<open>Retry policy and single-job processing\<close>

text \<open>
  C7. With \<open>MaxAttempts = 0\<close>, \<open>Do\<close> returns nil without calling \<open>fn\<close> and leaves the state
  as it was. With \<open>MaxAttempts = 1\<close>, \<open>Do\<close> returns the context's error without calling
  \<open>fn\<close> when the context is already done, and otherwise it is exactly one call of \<open>fn\<close>:
  the caller gets that call's outcome and that call's final state, to which \<open>Do\<close> adds
  nothing (no second call, no backoff wait). The statement holds for every \<open>fn\<close>.
\<close>

theorem Do_no_retry:
  "(MaxAttempts cfg = 0 \<longrightarrow> Do env ctx cfg fn st = (None, st))
   \<and> (MaxAttempts cfg = 1 \<longrightarrow>
        Do env ctx cfg fn st =
          (case ctx_Err ctx (snd st) of
             Some err \<Rightarrow> (Some err, st)
           | None \<Rightarrow> fn (attempt_mark st)))"
  by (auto simp: Do_def Do_loop.simps [of env ctx cfg fn 0] split: option.split prod.split)

theorem Do_no_retry_witness:
  "Do mock_env None \<lparr> MaxAttempts = 0, Delay = Second, Multiplier = 2, MaxDelay = 30 * Second \<rparr>
      (flaky 1 (Opaque ''boom'')) (0, world0) = (None, (0, world0))
   \<and> Do mock_env None \<lparr> MaxAttempts = 1, Delay = Second, Multiplier = 2, MaxDelay = 30 * Second \<rparr>
      (flaky 1 (Opaque ''boom'')) (0, world0)
     = (Some (Opaque ''boom''), (1, \<lparr> now = 0, trace = [EvAttempt] \<rparr>))"
  using Do_no_retry [of "\<lparr> MaxAttempts = 0, Delay = Second, Multiplier = 2, MaxDelay = 30 * Second \<rparr>"
                        mock_env None "flaky 1 (Opaque ''boom'')" "(0, world0)"]
        Do_no_retry [of "\<lparr> MaxAttempts = 1, Delay = Second, Multiplier = 2, MaxDelay = 30 * Second \<rparr>"
                        mock_env None "flaky 1 (Opaque ''boom'')" "(0, world0)"]
  by (simp add: ctx_Err_def flaky_def attempt_mark_def emit_def world0_def)

text \<open>
  C6 (the code departs from it). The claim has each of the two waits capped at
  \<open>MaxDelay\<close>. \<open>Do\<close> caps the delay only after it has multiplied it (lines 52-55); the
  first wait uses \<open>cfg.Delay\<close> as it is (lines 29, 49). With three attempts, multiplier
  2.0 and a unit of work that fails twice and then succeeds: a base delay of one second
  with \<open>MaxDelay = 0\<close> (the zero value of a \<open>Config\<close> that does not set it) gives waits of
  one second, then zero; a base delay of ten seconds under a cap of five gives waits of
  ten seconds, then five. Capped, the waits would be zero twice, and five seconds twice.
\<close>

theorem Do_backoff_first_wait_uncapped:
  "sleeps_of (trace (snd (snd
      (Do mock_env None \<lparr> MaxAttempts = 3, Delay = Second, Multiplier = 2, MaxDelay = 0 \<rparr>
          (flaky 2 (Opaque ''boom'')) (0, world0))))) = [Second, 0]
   \<and> sleeps_of (trace (snd (snd
      (Do mock_env None \<lparr> MaxAttempts = 3, Delay = Second, Multiplier = 2, MaxDelay = 0 \<rparr>
          (flaky 2 (Opaque ''boom'')) (0, world0))))) \<noteq> [min Second 0, min (2 * Second) 0]
   \<and> sleeps_of (trace (snd (snd
      (Do mock_env None
          \<lparr> MaxAttempts = 3, Delay = 10 * Second, Multiplier = 2, MaxDelay = 5 * Second \<rparr>
          (flaky 2 (Opaque ''boom'')) (0, world0))))) = [10 * Second, 5 * Second]
   \<and> fst (Do mock_env None
          \<lparr> MaxAttempts = 3, Delay = 10 * Second, Multiplier = 2, MaxDelay = 5 * Second \<rparr>
          (flaky 2 (Opaque ''boom'')) (0, world0)) = None"
  by (simp add: retry_eval Second_def)

text \<open>
  C4. For every retry configuration with \<open>MaxAttempts \<ge> 1\<close>, under the closure that
  \<open>ProcessAudio\<close> hands to \<open>Do\<close>: when the context is not done and the first pipeline run
  fails with a validation error, the run is the only attempt and there is no backoff
  wait; the world \<open>Do\<close> ends in is the world that run left.
\<close>

theorem validation_not_retried:
  assumes "1 \<le> MaxAttempts cfg"
      and "ctx_Err ctx (snd st) = None"
      and "fst (Run env ctx job (snd (attempt_mark st))) = Inl e"
      and "isValidationError e"
  shows "attempts_of (trace (snd (snd (Do env ctx cfg (attempt_fn env ctx job) st))))
           = attempts_of (trace (snd st)) + 1
         \<and> sleeps_of (trace (snd (snd (Do env ctx cfg (attempt_fn env ctx job) st))))
           = sleeps_of (trace (snd st))
         \<and> snd (snd (Do env ctx cfg (attempt_fn env ctx job) st))
           = snd (Run env ctx job (snd (attempt_mark st)))"
proof -
  obtain w1 where run: "Run env ctx job (snd (attempt_mark st)) = (Inl e, w1)"
    using assms(3) by (cases "Run env ctx job (snd (attempt_mark st))") simp
  have "attempt_fn env ctx job (attempt_mark st) = (None, (None, w1))"
    using run assms(4) by (simp add: attempt_fn_def)
  then have "Do env ctx cfg (attempt_fn env ctx job) st = (None, (None, w1))"
    using assms(1,2) by (intro Do_first) simp_all
  moreover have "attempts_of (trace w1) = attempts_of (trace (snd st)) + 1
      \<and> sleeps_of (trace w1) = sleeps_of (trace (snd st))"
    using quiet_Run [of env ctx job "snd (attempt_mark st)"] run
    by (simp add: attempt_mark_def emit_def attempts_of_append sleeps_of_append)
  ultimately show ?thesis using run by simp
qed

theorem validation_not_retried_witness:
  "attempts_of (trace (snd (snd
      (Do mock_env None DefaultConfig (attempt_fn mock_env None (job_ok\<lparr> jInputPath := [] \<rparr>))
          (None, world0))))) = 1
   \<and> sleeps_of (trace (snd (snd
      (Do mock_env None DefaultConfig (attempt_fn mock_env None (job_ok\<lparr> jInputPath := [] \<rparr>))
          (None, world0))))) = []"
proof -
  have h1: "1 \<le> MaxAttempts DefaultConfig" by (simp add: DefaultConfig_def)
  have h2: "ctx_Err None (snd (None :: ProcessingResult option, world0)) = None"
    by (simp add: ctx_Err_def)
  have h3: "fst (Run mock_env None (job_ok\<lparr> jInputPath := [] \<rparr>)
                  (snd (attempt_mark (None :: ProcessingResult option, world0))))
              = Inl (ValidationError ''inputPath'' (VStr []) ''input path must not be empty'')"
    by (simp add: Run_def validateInput_def NewValidationError_def job_ok_def)
  have h4: "isValidationError (ValidationError ''inputPath'' (VStr []) ''input path must not be empty'')"
    by simp
  note main = validation_not_retried [OF h1 h2 h3 h4]
  show ?thesis
    using main [THEN conjunct1] main [THEN conjunct2, THEN conjunct1] by (simp add: world0_def)
qed

text \<open>
  C1 (the code departs from it). \<open>ProcessAudio\<close> with an empty input path and default
  options: the pipeline run fails with the validation error for \<open>inputPath\<close>, the closure
  turns it into nil, \<open>Do\<close> returns nil, and \<open>ProcessAudio\<close> goes on to read
  \<open>result.Duration\<close> through the nil \<open>result\<close>. It returns neither the validation error nor
  anything else. The lemma \<open>ProcessAudio_validation_panics\<close> above shows the same for
  every call whose first run fails with a validation error.
\<close>

theorem ProcessAudio_empty_input_panics:
  "fst (Run mock_env (Some (5 * Minute, DeadlineExceeded))
          \<lparr> jID = generateJobID [] world0, jInputPath = [], jOutputPath = ''out.opus'',
            jOptions = DefaultProcessingOptions, jReporter = True \<rparr>
          (emit EvAttempt 0 world0))
     = Inl (ValidationError ''inputPath'' (VStr []) ''input path must not be empty'')
   \<and> ProcessAudio mock_env None [] ''out.opus'' [] world0
     = (PanicNilDeref, \<lparr> now = 0, trace = [EvAttempt] \<rparr>)"
  by (simp add: ProcessAudio_def Run_def validateInput_def NewValidationError_def attempt_fn_def
        WithTimeout_def DefaultProcessingOptions_def Minute_def Second_def retry_eval)


section \<open>Batch processing\<close>

text \<open>
  C2. In every state a batch call of \<open>N\<close> jobs can reach: the job IDs on the result
  stream are among the submitted ones, none more often than it was submitted; when the
  stream is closed it holds exactly \<open>N\<close> results, one per submitted job ID, and no later
  step sends anything or reopens it; for \<open>N = 0\<close> the stream is closed, and empty, from
  the start; and while the stream is not closed some step of the program is enabled,
  each of which lowers \<open>remaining\<close>, so the batch cannot get stuck before it closes the
  stream. (\<open>processJob\<close> is taken to return.)
\<close>

theorem batch_results:
  assumes "reachable env ctx (NewWorkerPool n) reporter jobs w s"
  shows "mset (map JobID (results s)) \<subseteq># mset (map bID jobs)
       \<and> (closed s \<longrightarrow> mset (map JobID (results s)) = mset (map bID jobs)
                        \<and> length (results s) = length jobs)
       \<and> (closed s \<longrightarrow> (\<forall>s'. step env ctx (NewWorkerPool n) reporter s s'
                               \<longrightarrow> results s' = results s \<and> closed s'))
       \<and> (jobs = [] \<longrightarrow> closed s \<and> results s = [])
       \<and> (\<not> closed s \<longrightarrow> (\<exists>s'. progress env ctx (NewWorkerPool n) reporter s s'))"
proof -
  have acc: "accounted jobs s" using assms by (rule accounted_reachable)
  then have eq: "mset (map JobID (results s)) + mset (map bID (jobCh s)) + mset (started_ids s)
        = mset (map bID jobs)"
    by (simp add: accounted_def)
  have sub: "mset (map JobID (results s)) \<subseteq># mset (map bID jobs)"
    by (metis eq mset_subset_eq_add_left add.assoc)
  have cl: "jobCh s = [] \<and> goroutines s = []" if "closed s"
    using acc that by (simp add: accounted_def)
  have all: "mset (map JobID (results s)) = mset (map bID jobs)" if "closed s"
    using eq cl [OF that] by (simp add: started_ids_def)
  have len: "length (results s) = length jobs" if "closed s"
    using all [OF that] by (metis length_map size_mset)
  have fin: "results s' = results s \<and> closed s'"
    if "closed s" "step env ctx (NewWorkerPool n) reporter s s'" for s'
    using closed_final [OF that(2) that(1)] cl [OF that(1)] by simp
  have empty: "closed s \<and> results s = []" if "jobs = []"
    using acc eq that by (auto simp: accounted_def split: if_splits)
  have live: "\<exists>s'. progress env ctx (NewWorkerPool n) reporter s s'" if "\<not> closed s"
    using progress_exists [OF NewWorkerPool_pos that] .
  show ?thesis using sub all len fin empty live by blast
qed

theorem batch_results_witness:
  "reachable mock_env None (NewWorkerPool 0) True [job_a] world0
     (served job_a (processJob mock_env None True job_a world0))
   \<and> closed (served job_a (processJob mock_env None True job_a world0))
   \<and> map JobID (results (served job_a (processJob mock_env None True job_a world0))) = [''a'']
   \<and> map Err (results (served job_a (processJob mock_env None True job_a world0))) = [None]"
proof -
  have r: "reachable mock_env None (NewWorkerPool 0) True [job_a] world0
     (served job_a (processJob mock_env None True job_a world0))"
    by (rule reachable_single)
  have c: "closed (served job_a (processJob mock_env None True job_a world0))"
    by (simp add: served_def)
  have "length (results (served job_a (processJob mock_env None True job_a world0)))
          = length [job_a]
        \<and> mset (map JobID (results (served job_a (processJob mock_env None True job_a world0))))
          = mset (map bID [job_a])"
    using batch_results [OF r] c by blast
  moreover have "map Err (results (served job_a (processJob mock_env None True job_a world0))) = [None]"
    by (simp add: batch_eval)
  ultimately show ?thesis using r c by (simp add: job_a_def length_Suc_conv) (auto simp: JobID_batch_result served_def job_a_def)
qed

text \<open>
  C3 (the code departs from it). The context is cancelled before the batch of one job
  is submitted to a pool of 4 workers. The semaphore has room, so both cases of the
  dispatcher's \<open>select\<close> are ready and the \<open>admit\<close> step is possible: the job runs through
  the pipeline, the mock executor is called three times (probe, execute, probe), and
  the one result on the closed stream carries no error at all.
\<close>

theorem cancelled_batch_still_runs:
  "ctx_Err cancelled world0 = Some Canceled
   \<and> reachable mock_env cancelled (NewWorkerPool 4) True [job_a] world0
        (served job_a (processJob mock_env cancelled True job_a world0))
   \<and> closed (served job_a (processJob mock_env cancelled True job_a world0))
   \<and> map Err (results (served job_a (processJob mock_env cancelled True job_a world0))) = [None]
   \<and> executor_calls (trace (pworld (served job_a (processJob mock_env cancelled True job_a world0))))
       = 3"
proof -
  have "map Err (results (served job_a (processJob mock_env cancelled True job_a world0))) = [None]"
    by (simp add: batch_eval)
  moreover have "executor_calls
      (trace (pworld (served job_a (processJob mock_env cancelled True job_a world0)))) = 3"
    by (simp add: batch_eval)
  ultimately show ?thesis
    using reachable_single [of mock_env cancelled 4 True job_a world0]
    by (simp add: ctx_Err_def cancelled_def world0_def served_def)
qed


end
